theory Spec2Isabelle
  imports Complex_Main "HOL-Library.Sublist" "HOL-Library.Code_Target_Numeral"
begin

section \<open>Price extraction of the price-drop notifier (scraper\_utils.py)\<close>

text \<open>
  A shallow embedding of \<^verbatim>\<open>src/backend/layers/utils/scraper_utils.py\<close>. Every function
  keeps the name it has in the source, without the leading underscore (an Isabelle name
  starts with a letter).
\<close>

subsection \<open>Python strings\<close>

text \<open>
  A Python \<^verbatim>\<open>str\<close> is a sequence of Unicode code points, and \<^verbatim>\<open>len\<close> counts code
  points. The pound sign is U+00A3 and the euro sign is U+20AC, which does not fit a HOL
  \<open>char\<close>, so a string is a list of code points.
\<close>

type_synonym pystr = "nat list"

definition ascii :: "string \<Rightarrow> pystr" where
  "ascii s = map of_char s"

definition POUND :: nat where
  "POUND = 163"

definition EURO :: nat where
  "EURO = 8364"

text \<open>
  The characters \<^verbatim>\<open>str.isspace\<close> accepts; \<^verbatim>\<open>str.split()\<close>, \<^verbatim>\<open>str.strip()\<close> and the
  class \<^verbatim>\<open>\s\<close> of \<^verbatim>\<open>re\<close> all use this set.
\<close>

definition is_space :: "nat \<Rightarrow> bool" where
  "is_space c \<longleftrightarrow>
     (9 \<le> c \<and> c \<le> 13) \<or> (28 \<le> c \<and> c \<le> 32) \<or> c = 133 \<or> c = 160 \<or> c = 5760 \<or>
     (8192 \<le> c \<and> c \<le> 8202) \<or> c = 8232 \<or> c = 8233 \<or> c = 8239 \<or> c = 8287 \<or> c = 12288"

text \<open>
  The class \<^verbatim>\<open>\d\<close>. Only the ASCII digits are modelled; the decimal digits of other
  scripts, which \<^verbatim>\<open>re\<close> and \<^verbatim>\<open>float\<close> also accept, are outside the model.
\<close>

definition is_digit :: "nat \<Rightarrow> bool" where
  "is_digit c \<longleftrightarrow> 48 \<le> c \<and> c \<le> 57"

text \<open>\<^verbatim>\<open>text.split()\<close>: the maximal runs of non-space characters, in order.\<close>

fun split_acc :: "pystr \<Rightarrow> pystr \<Rightarrow> pystr list" where
  "split_acc cur [] = (if cur = [] then [] else [rev cur])"
| "split_acc cur (c # cs) =
     (if is_space c then (if cur = [] then split_acc [] cs else rev cur # split_acc [] cs)
      else split_acc (c # cur) cs)"

definition split_ws :: "pystr \<Rightarrow> pystr list" where
  "split_ws s = split_acc [] s"

text \<open>\<^verbatim>\<open>sep.join(parts)\<close>.\<close>

fun join :: "pystr \<Rightarrow> pystr list \<Rightarrow> pystr" where
  "join sep [] = []"
| "join sep [x] = x"
| "join sep (x # y # ys) = x @ sep @ join sep (y # ys)"

text \<open>\<^verbatim>\<open>s.strip()\<close>.\<close>

definition strip :: "pystr \<Rightarrow> pystr" where
  "strip s = rev (dropWhile is_space (rev (dropWhile is_space s)))"

text \<open>\<^verbatim>\<open>s.rstrip(c)\<close> for a single character \<open>c\<close>.\<close>

definition rstrip_char :: "nat \<Rightarrow> pystr \<Rightarrow> pystr" where
  "rstrip_char c s = rev (dropWhile (\<lambda>x. x = c) (rev s))"

text \<open>\<^verbatim>\<open>s.replace(c, "")\<close> and \<^verbatim>\<open>s.replace(c, d)\<close> for single characters.\<close>

definition remove_char :: "nat \<Rightarrow> pystr \<Rightarrow> pystr" where
  "remove_char c s = filter (\<lambda>x. x \<noteq> c) s"

definition replace_char :: "nat \<Rightarrow> nat \<Rightarrow> pystr \<Rightarrow> pystr" where
  "replace_char c d s = map (\<lambda>x. if x = c then d else x) s"

text \<open>\<^verbatim>\<open>needle in s\<close>.\<close>

fun contains :: "pystr \<Rightarrow> pystr \<Rightarrow> bool" where
  "contains needle [] = (needle = [])"
| "contains needle (c # cs) = (prefix needle (c # cs) \<or> contains needle cs)"

subsection \<open>The errors of the source\<close>

text \<open>
  The exceptions that the calls of the source raise: \<^verbatim>\<open>ValueError\<close> (\<^verbatim>\<open>float\<close>,
  \<^verbatim>\<open>json.loads\<close>, \<^verbatim>\<open>urlparse\<close>), \<^verbatim>\<open>AttributeError\<close> (a method that the value does not
  have), \<^verbatim>\<open>IndexError\<close> (the first item of an empty list) and the exceptions of
  \<^verbatim>\<open>requests\<close>.
\<close>

datatype pyerror = ValueError | AttributeError | IndexError | RequestException

subsection \<open>Regular expressions, as \<^verbatim>\<open>re\<close> matches them\<close>

text \<open>
  The fragment of \<^verbatim>\<open>re\<close> that the price patterns use. A match of an expression on a
  string is the list of the rests of the string after each way to match, in the order in
  which a backtracking matcher tries them: a greedy repetition tries one more round
  before it tries to stop. No starred expression of the source matches the empty string,
  so a star on a string of \<open>n\<close> characters is a repetition of at most \<open>n\<close> rounds.
\<close>

datatype rx =
    Eps
  | Lit nat
  | Digit
  | Space
  | OneOf "nat list"
  | Seq rx rx
  | Opt rx
  | Star rx
  | Rep nat nat rx

fun rep_m :: "(pystr \<Rightarrow> pystr list) \<Rightarrow> nat \<Rightarrow> nat \<Rightarrow> pystr \<Rightarrow> pystr list" where
  "rep_m m lo 0 s = (if lo = 0 then [s] else [])"
| "rep_m m lo (Suc hi) s =
     concat (map (rep_m m (lo - 1) hi) (m s)) @ (if lo = 0 then [s] else [])"

fun class_m :: "(nat \<Rightarrow> bool) \<Rightarrow> pystr \<Rightarrow> pystr list" where
  "class_m P [] = []"
| "class_m P (c # cs) = (if P c then [cs] else [])"

fun rx_match :: "rx \<Rightarrow> pystr \<Rightarrow> pystr list" where
  "rx_match Eps s = [s]"
| "rx_match (Lit c) s = class_m (\<lambda>x. x = c) s"
| "rx_match Digit s = class_m is_digit s"
| "rx_match Space s = class_m is_space s"
| "rx_match (OneOf cs) s = class_m (\<lambda>x. x \<in> set cs) s"
| "rx_match (Seq a b) s = concat (map (rx_match b) (rx_match a s))"
| "rx_match (Opt a) s = rx_match a s @ [s]"
| "rx_match (Star a) s = rep_m (rx_match a) 0 (length s) s"
| "rx_match (Rep lo hi a) s = rep_m (rx_match a) lo hi s"

text \<open>
  Every price pattern has one group: what stands before the group, the group, what
  stands after it.
\<close>

record pattern =
  before :: rx
  grp :: rx
  after :: rx

text \<open>The text of group 1 of the first match that starts at the head of \<open>s\<close>.\<close>

definition match_at :: "pattern \<Rightarrow> pystr \<Rightarrow> pystr option" where
  "match_at p s =
     (case concat (map (\<lambda>r1. concat (map (\<lambda>r2.
              if rx_match (after p) r2 = [] then [] else [take (length r1 - length r2) r1])
            (rx_match (grp p) r1)))
          (rx_match (before p) s)) of
        [] \<Rightarrow> None
      | g # _ \<Rightarrow> Some g)"

text \<open>\<^verbatim>\<open>re.search(pattern, text)\<close> and \<^verbatim>\<open>match.group(1)\<close>: the leftmost match.\<close>

fun re_search :: "pattern \<Rightarrow> pystr \<Rightarrow> pystr option" where
  "re_search p [] = match_at p []"
| "re_search p (c # cs) =
     (case match_at p (c # cs) of Some g \<Rightarrow> Some g | None \<Rightarrow> re_search p cs)"

fun lits :: "pystr \<Rightarrow> rx" where
  "lits [] = Eps"
| "lits (c # cs) = Seq (Lit c) (lits cs)"

text \<open>\<^verbatim>\<open>\d{1,6}(?:,\d{3})*\<close>, \<^verbatim>\<open>(?:\.\d{2})?\<close> and the two with \<^verbatim>\<open>[.,]\<close>.\<close>

definition rx_thousands :: rx where
  "rx_thousands = Seq (Rep 1 6 Digit) (Star (Seq (Lit 44) (Rep 3 3 Digit)))"

definition rx_cents :: rx where
  "rx_cents = Seq (Lit 46) (Rep 2 2 Digit)"

definition rx_amount :: rx where
  "rx_amount = Seq rx_thousands (Opt rx_cents)"

definition rx_amount_eu :: rx where
  "rx_amount_eu =
     Seq (Seq (Rep 1 6 Digit) (Star (Seq (OneOf [46, 44]) (Rep 3 3 Digit))))
         (Opt (Seq (OneOf [46, 44]) (Rep 2 2 Digit)))"

text \<open>\<^verbatim>\<open>_PRICE_PATTERNS\<close>, in the order of the source.\<close>

definition PRICE_PATTERNS :: "pattern list" where
  "PRICE_PATTERNS =
     [\<lparr>before = Seq (Lit 36) (Star Space), grp = rx_amount, after = Eps\<rparr>,
      \<lparr>before = Eps, grp = rx_amount, after = Seq (Star Space) (lits (ascii ''USD''))\<rparr>,
      \<lparr>before = Seq (lits (ascii ''USD'')) (Star Space), grp = rx_amount, after = Eps\<rparr>,
      \<lparr>before = Seq (Lit POUND) (Star Space), grp = rx_amount, after = Eps\<rparr>,
      \<lparr>before = Seq (Lit EURO) (Star Space), grp = rx_amount_eu, after = Eps\<rparr>,
      \<lparr>before = Eps, grp = Seq rx_thousands rx_cents, after = Eps\<rparr>]"

subsection \<open>Numbers\<close>

text \<open>
  A price is a Python \<^verbatim>\<open>float\<close>. The model holds the exact decimal value that the
  float rounds: rounding to the nearest double keeps the sign, keeps zero apart from the
  decimals of the source (at least 0.01 when not zero) and keeps the order against
  1,000,000, which is a double. \<^verbatim>\<open>float(s)\<close> is modelled on the finite decimal
  literals: blanks around, a sign, digits, a fraction. The other spellings that
  \<^verbatim>\<open>float\<close> accepts (an exponent, underscores, \<^verbatim>\<open>inf\<close>, \<^verbatim>\<open>nan\<close>) are outside the model.
\<close>

definition digits_val :: "pystr \<Rightarrow> int" where
  "digits_val ds = foldl (\<lambda>n c. 10 * n + (int c - 48)) 0 ds"

definition unsigned_float :: "pystr \<Rightarrow> pyerror + rat" where
  "unsigned_float s =
     (let ip = takeWhile is_digit s; rest = dropWhile is_digit s in
      if rest = [] then (if ip = [] then Inl ValueError else Inr (of_int (digits_val ip)))
      else if hd rest = 46 \<and> list_all is_digit (tl rest) \<and> (ip \<noteq> [] \<or> tl rest \<noteq> [])
      then Inr (of_int (digits_val (ip @ tl rest)) / 10 ^ length (tl rest))
      else Inl ValueError)"

definition py_float :: "pystr \<Rightarrow> pyerror + rat" where
  "py_float s0 =
     (let s = strip s0 in
      case s of
        [] \<Rightarrow> Inl ValueError
      | c # cs \<Rightarrow>
          if c = 45 then map_sum id uminus (unsigned_float cs)
          else if c = 43 then unsigned_float cs
          else unsigned_float s)"

subsection \<open>\<^verbatim>\<open>_extract_price_from_text\<close> and \<^verbatim>\<open>_detect_currency\<close>\<close>

text \<open>
  The body of the loop over the patterns: when \<^verbatim>\<open>float\<close> raises \<^verbatim>\<open>ValueError\<close> the
  loop goes on with the next pattern.
\<close>

definition normalise_raw :: "pystr \<Rightarrow> pystr" where
  "normalise_raw g =
     (let raw = remove_char 44 g in
      if count_list raw 46 > 1 then replace_char 44 46 (remove_char 46 raw) else raw)"

fun first_price :: "pattern list \<Rightarrow> pystr \<Rightarrow> rat option" where
  "first_price [] t = None"
| "first_price (p # ps) t =
     (case re_search p t of
        None \<Rightarrow> first_price ps t
      | Some g \<Rightarrow>
          (case py_float (normalise_raw g) of
             Inr v \<Rightarrow> Some v
           | Inl e \<Rightarrow> first_price ps t))"

definition extract_price_from_text :: "pystr \<Rightarrow> rat option" where
  "extract_price_from_text text =
     (if text = [] then None else first_price PRICE_PATTERNS (join [32] (split_ws text)))"

definition detect_currency :: "pystr \<Rightarrow> pystr" where
  "detect_currency text =
     (if POUND \<in> set text then ascii ''GBP'' else if EURO \<in> set text
      then ascii ''EUR'' else ascii ''USD'')"

subsection \<open>The document tree\<close>

text \<open>
  The tree that \<^verbatim>\<open>BeautifulSoup(html, "html.parser")\<close> builds. An element has a name,
  attributes and contents; a string of the page is a \<open>Text\<close> when \<^verbatim>\<open>get_text\<close> yields it
  and a \<open>Hidden\<close> string (a comment, a declaration, the text of a script) when it
  does not. The
  \<^verbatim>\<open>BeautifulSoup\<close> object is the root: it holds the top-level contents and has no
  parent.
\<close>

datatype dom =
    Tag (tag_name: string) (tag_attrs: "(string \<times> pystr) list") (contents: "dom list")
  | Text pystr
  | Hidden pystr

datatype soup = BeautifulSoup "dom list"

text \<open>
  The identity of a node (\<^verbatim>\<open>id(node)\<close> in the source) is its position: the indices of
  the children to follow from the root. The root is \<open>[]\<close>, and \<^verbatim>\<open>node.parent\<close> drops
  the last index; the root has no parent.
\<close>

type_synonym node = "nat list"

definition parent :: "node \<Rightarrow> node option" where
  "parent n = (if n = [] then None else Some (butlast n))"

text \<open>An element of the page: where it stands, and the subtree it is.\<close>

type_synonym element = "node \<times> dom"

subsection \<open>\<^verbatim>\<open>_dom_distance\<close>\<close>

text \<open>
  The first loop records every ancestor of \<open>el_a\<close> with its depth, the second walks up
  from \<open>el_b\<close> to the first recorded node. Each loop ends when \<^verbatim>\<open>node.parent\<close> is
  \<^verbatim>\<open>None\<close>; the second returns 10,000 when it finds no recorded node.
\<close>

function ancestors_loop :: "node option \<Rightarrow> nat \<Rightarrow> (node \<rightharpoonup> nat) \<Rightarrow> (node \<rightharpoonup> nat)" where
  "ancestors_loop None depth ancestors_a = ancestors_a"
| "ancestors_loop (Some n) depth ancestors_a =
     ancestors_loop (parent n) (depth + 1) (ancestors_a(n \<mapsto> depth))"
  by pat_completeness auto
termination
  by (relation "measure (\<lambda>(n, d, a). case n of None \<Rightarrow> 0 | Some p \<Rightarrow> Suc (length p))")
     (auto simp: parent_def)

function walk_up :: "(node \<rightharpoonup> nat) \<Rightarrow> node option \<Rightarrow> nat \<Rightarrow> nat" where
  "walk_up ancestors_a None depth = 10000"
| "walk_up ancestors_a (Some n) depth =
     (case ancestors_a n of
        Some d \<Rightarrow> d + depth
      | None \<Rightarrow> walk_up ancestors_a (parent n) (depth + 1))"
  by pat_completeness auto
termination
  by (relation "measure (\<lambda>(a, n, d). case n of None \<Rightarrow> 0 | Some p \<Rightarrow> Suc (length p))")
     (auto simp: parent_def)

definition dom_distance :: "node \<Rightarrow> node \<Rightarrow> nat" where
  "dom_distance el_a el_b =
     walk_up (ancestors_loop (Some el_a) 0 Map.empty) (Some el_b) 0"

subsection \<open>Walking the tree\<close>

text \<open>
  \<^verbatim>\<open>find_all(True)\<close> lists every element below the root in document order (an element
  before its descendants, siblings from left to right).
\<close>

fun tags_under :: "node \<Rightarrow> dom \<Rightarrow> element list"
  and tags_in :: "node \<Rightarrow> nat \<Rightarrow> dom list \<Rightarrow> element list" where
  "tags_under p (Tag n a cs) = (p, Tag n a cs) # tags_in p 0 cs"
| "tags_under p (Text s) = []"
| "tags_under p (Hidden s) = []"
| "tags_in p i [] = []"
| "tags_in p i (c # cs) = tags_under (p @ [i]) c @ tags_in p (Suc i) cs"

definition find_all :: "soup \<Rightarrow> element list" where
  "find_all soup = (case soup of BeautifulSoup cs \<Rightarrow> tags_in [] 0 cs)"

fun name_of :: "dom \<Rightarrow> string" where
  "name_of (Tag n a cs) = n"
| "name_of (Text s) = []"
| "name_of (Hidden s) = []"

text \<open>\<^verbatim>\<open>el.get(key)\<close>: \<open>None\<close> when the attribute is missing.\<close>

fun attr_get :: "dom \<Rightarrow> string \<Rightarrow> pystr option" where
  "attr_get (Tag n a cs) key = map_of a key"
| "attr_get (Text s) key = None"
| "attr_get (Hidden s) key = None"

text \<open>\<^verbatim>\<open>soup.find(name)\<close>: the first element of that name, \<open>None\<close> when there is none.\<close>

definition soup_find :: "soup \<Rightarrow> string \<Rightarrow> element option" where
  "soup_find soup nm = List.find (\<lambda>el. name_of (snd el) = nm) (find_all soup)"

text \<open>\<^verbatim>\<open>soup.find_all(name, key=value)\<close> and \<^verbatim>\<open>soup.find(name, key=value)\<close>.\<close>

definition find_all_with :: "soup \<Rightarrow> string \<Rightarrow> string \<Rightarrow> pystr \<Rightarrow> element list" where
  "find_all_with soup nm key v =
     filter (\<lambda>el. name_of (snd el) = nm \<and> attr_get (snd el) key = Some v) (find_all soup)"

definition soup_find_with :: "soup \<Rightarrow> string \<Rightarrow> string \<Rightarrow> pystr \<Rightarrow> element option" where
  "soup_find_with soup nm key v =
     (case find_all_with soup nm key v of [] \<Rightarrow> None | el # _ \<Rightarrow> Some el)"

text \<open>
  \<^verbatim>\<open>el.get_text(separator, strip=True)\<close>: the strings below the element, each stripped,
  the empty ones dropped, joined by the separator.
\<close>

fun all_strings :: "dom \<Rightarrow> pystr list" where
  "all_strings (Tag n a cs) = concat (map all_strings cs)"
| "all_strings (Text s) = [s]"
| "all_strings (Hidden s) = []"

definition get_text :: "pystr \<Rightarrow> dom \<Rightarrow> pystr" where
  "get_text separator el =
     join separator (filter (\<lambda>s. s \<noteq> []) (map strip (all_strings el)))"

text \<open>
  \<^verbatim>\<open>el.string\<close>: the string of an element whose only child is a string, or whose only
  child is an element that has a \<^verbatim>\<open>.string\<close>.
\<close>

fun dom_string :: "dom \<Rightarrow> pystr option" where
  "dom_string (Tag n a [c]) = dom_string c"
| "dom_string (Tag n a cs) = None"
| "dom_string (Text s) = Some s"
| "dom_string (Hidden s) = Some s"

text \<open>\<^verbatim>\<open>any(hasattr(c, "name") and c.name for c in el.children)\<close>.\<close>

fun is_tag :: "dom \<Rightarrow> bool" where
  "is_tag (Tag n a cs) = True"
| "is_tag (Text s) = False"
| "is_tag (Hidden s) = False"

fun has_child_tags :: "dom \<Rightarrow> bool" where
  "has_child_tags (Tag n a cs) = list_ex is_tag cs"
| "has_child_tags (Text s) = False"
| "has_child_tags (Hidden s) = False"

subsection \<open>What the source takes from libraries\<close>

text \<open>
  A JSON value as \<^verbatim>\<open>json.loads\<close> returns it: \<^verbatim>\<open>None\<close>, a bool, a number, a string, a
  list, or a dict (its items, each key once).
\<close>

datatype json =
    JNull
  | JBool bool
  | JNum rat
  | JStr pystr
  | JArr "json list"
  | JObj "(pystr \<times> json) list"

text \<open>What the source reads of \<^verbatim>\<open>urlparse(url)\<close>.\<close>

record url =
  scheme :: pystr
  netloc :: pystr
  path :: pystr

text \<open>
  The library calls whose results the source only passes on are parameters of the model:
  the selector engine of the parser (\<^verbatim>\<open>soup.select\<close>), \<^verbatim>\<open>str.lower\<close>, \<^verbatim>\<open>json.loads\<close>
  (it raises on text that is not JSON), \<^verbatim>\<open>str()\<close> of a JSON value that is not a string,
  \<^verbatim>\<open>urlparse\<close> (it raises \<^verbatim>\<open>ValueError\<close> on a netloc with an unmatched bracket),
  \<^verbatim>\<open>quote_plus\<close>, the environment variable \<^verbatim>\<open>SCRAPER_API_KEY\<close>, \<^verbatim>\<open>requests.get\<close> with
  \<^verbatim>\<open>raise_for_status\<close> and \<^verbatim>\<open>.text\<close> (the text of the page, or the exception raised),
  and the parser itself.
\<close>

record lib =
  select :: "soup \<Rightarrow> string \<Rightarrow> element list"
  lower :: "pystr \<Rightarrow> pystr"
  json_loads :: "pystr \<Rightarrow> pyerror + json"
  str_of :: "json \<Rightarrow> pystr"
  urlparse :: "pystr \<Rightarrow> pyerror + url"
  quote_plus :: "pystr \<Rightarrow> pystr"
  scraper_api_key :: pystr
  requests_get :: "pystr \<Rightarrow> nat \<Rightarrow> pyerror + pystr"
  parse_html :: "pystr \<Rightarrow> soup"

subsection \<open>\<^verbatim>\<open>_find_anchor_element\<close>\<close>

definition SKIP :: "string list" where
  "SKIP = [''script'', ''style'', ''meta'', ''link'', ''head'', ''noscript'']"

text \<open>The body of the loop; the state is \<open>(best_el, best_score)\<close>.\<close>

definition anchor_step :: "lib \<Rightarrow> pystr \<Rightarrow> element option \<times> rat \<Rightarrow> element \<Rightarrow> element option \<times> rat" where
  "anchor_step L needle st el =
     (if name_of (snd el) \<in> set SKIP then st
      else let text = get_text [] (snd el) in
        if text = [] then st
        else let text_lower = lower L text in
          if \<not> contains needle text_lower then st
          else let score = of_nat (length needle) / of_nat (length text_lower) in
            if score > snd st then (Some el, score) else st)"

definition find_anchor_element :: "lib \<Rightarrow> soup \<Rightarrow> pystr \<Rightarrow> element option" where
  "find_anchor_element L soup product_name =
     (let needle = strip (lower L product_name) in
      if needle = [] then soup_find soup ''h1''
      else case fst (foldl (anchor_step L needle) (None, 0) (find_all soup)) of
             Some el \<Rightarrow> Some el
           | None \<Rightarrow> soup_find soup ''h1'')"

subsection \<open>\<^verbatim>\<open>_try_selectors\<close> and \<^verbatim>\<open>_try_proximity_sweep\<close>\<close>

text \<open>\<^verbatim>\<open>_PRICE_SELECTORS\<close>: the selector and what to read of a match, in the order of the source.\<close>

definition PRICE_SELECTORS :: "(string \<times> string) list" where
  "PRICE_SELECTORS =
     [(''[itemprop=\"price\"]'', ''content''),
      (''[itemprop=\"price\"]'', ''text''),
      (''meta[property=\"product:price:amount\"]'', ''content''),
      (''meta[property=\"og:price:amount\"]'', ''content''),
      (''#priceblock_ourprice'', ''text''),
      (''#priceblock_dealprice'', ''text''),
      (''.a-price > .a-offscreen'', ''text''),
      (''#price_inside_buybox'', ''text''),
      (''.priceView-hero-price span[aria-hidden='true']'', ''text''),
      (''[data-test-id*=\"Price\"]'', ''text''),
      (''[data-test-id*=\"price\"]'', ''text''),
      (''[data-testid*=\"Price\"]'', ''text''),
      (''[data-testid*=\"price\"]'', ''text''),
      (''[data-name-id*=\"Price\"]'', ''text''),
      (''.product-price'', ''text''),
      (''.price--main'', ''text''),
      (''.price-box .price'', ''text''),
      (''.woocommerce-Price-amount'', ''text''),
      (''[class*=\"ProductPrice\"]'', ''text''),
      (''[class*=\"product-price\"]'', ''text''),
      (''[class*=\"current-price\"]'', ''text''),
      (''[class*=\"sale-price\"]'', ''text''),
      (''#price'', ''text''),
      (''.price'', ''text'')]"

text \<open>The three variables that both loops update.\<close>

record best =
  best_dist :: nat
  best_price :: "rat option"
  best_currency :: pystr

definition best_init :: best where
  "best_init = \<lparr>best_dist = 10001, best_price = None, best_currency = ascii ''USD''\<rparr>"

text \<open>What each of the two strategies returns: the dict with the keys price and currency.\<close>

record price_hit =
  hit_price :: rat
  hit_currency :: pystr

definition best_result :: "best \<Rightarrow> price_hit option" where
  "best_result st =
     (case best_price st of
        Some p \<Rightarrow> Some \<lparr>hit_price = p, hit_currency = best_currency st\<rparr>
      | None \<Rightarrow> None)"

text \<open>\<^verbatim>\<open>_dom_distance(el, anchor) if anchor else 0\<close>.\<close>

definition dist_to :: "element option \<Rightarrow> element \<Rightarrow> nat" where
  "dist_to anchor el =
     (case anchor of Some a \<Rightarrow> dom_distance (fst el) (fst a) | None \<Rightarrow> 0)"

text \<open>\<^verbatim>\<open>if anchor is None: anchor = soup.find("h1")\<close>.\<close>

definition anchor_or_h1 :: "soup \<Rightarrow> element option \<Rightarrow> element option" where
  "anchor_or_h1 soup anchor =
     (case anchor of None \<Rightarrow> soup_find soup ''h1'' | Some a \<Rightarrow> Some a)"

text \<open>The text a selector match is read from.\<close>

definition selector_raw :: "string \<Rightarrow> element \<Rightarrow> pystr" where
  "selector_raw attr_type el =
     (if attr_type = ''text'' then get_text [32] (snd el)
      else case attr_get (snd el) attr_type of Some v \<Rightarrow> v | None \<Rightarrow> [])"

text \<open>The body of the inner loop of \<^verbatim>\<open>_try_selectors\<close>.\<close>

definition selectors_step :: "element option \<Rightarrow> string \<Rightarrow> best \<Rightarrow> element \<Rightarrow> best" where
  "selectors_step anchor attr_type st el =
     (let raw = selector_raw attr_type el in
      case extract_price_from_text raw of
        None \<Rightarrow> st
      | Some price \<Rightarrow>
          if price \<le> 0 then st
          else let dist = dist_to anchor el in
            if dist < best_dist st
            then \<lparr>best_dist = dist, best_price = Some price, best_currency = detect_currency raw\<rparr>
            else st)"

definition try_selectors :: "lib \<Rightarrow> soup \<Rightarrow> element option \<Rightarrow> price_hit option" where
  "try_selectors L soup anchor0 =
     (let anchor = anchor_or_h1 soup anchor0 in
      best_result
        (foldl (\<lambda>st (selector, attr_type).
                  foldl (selectors_step anchor attr_type) st (select L soup selector))
               best_init PRICE_SELECTORS))"

text \<open>The body of the loop of \<^verbatim>\<open>_try_proximity_sweep\<close>.\<close>

definition sweep_step :: "element option \<Rightarrow> best \<Rightarrow> element \<Rightarrow> best" where
  "sweep_step anchor st el =
     (if name_of (snd el) \<in> set SKIP then st
      else if has_child_tags (snd el) then st
      else let text = get_text [32] (snd el) in
        if text = [] \<or> length text > 30 then st
        else case extract_price_from_text text of
          None \<Rightarrow> st
        | Some price \<Rightarrow>
            if \<not> (0 < price \<and> price < 1000000) then st
            else let dist = dist_to anchor el in
              if dist < best_dist st
              then \<lparr>best_dist = dist, best_price = Some price,
                    best_currency = detect_currency text\<rparr>
              else st)"

definition try_proximity_sweep :: "soup \<Rightarrow> element option \<Rightarrow> price_hit option" where
  "try_proximity_sweep soup anchor0 =
     (let anchor = anchor_or_h1 soup anchor0 in
      best_result (foldl (sweep_step anchor) best_init (find_all soup)))"

subsection \<open>Python on JSON values\<close>

text \<open>An exception propagates through the statements that follow.\<close>

definition on_ok :: "pyerror + 'a \<Rightarrow> ('a \<Rightarrow> pyerror + 'b) \<Rightarrow> pyerror + 'b" where
  "on_ok m f = (case m of Inl e \<Rightarrow> Inl e | Inr x \<Rightarrow> f x)"

text \<open>The truth value of a JSON value, for \<^verbatim>\<open>or\<close> and \<^verbatim>\<open>if\<close>.\<close>

fun truthy :: "json \<Rightarrow> bool" where
  "truthy JNull = False"
| "truthy (JBool b) = b"
| "truthy (JNum r) = (r \<noteq> 0)"
| "truthy (JStr s) = (s \<noteq> [])"
| "truthy (JArr xs) = (xs \<noteq> [])"
| "truthy (JObj kvs) = (kvs \<noteq> [])"

definition py_or :: "json \<Rightarrow> json \<Rightarrow> json" where
  "py_or a b = (if truthy a then a else b)"

text \<open>\<^verbatim>\<open>x.get(key, default)\<close>: only a dict has \<^verbatim>\<open>get\<close>.\<close>

fun dict_get :: "json \<Rightarrow> pystr \<Rightarrow> json \<Rightarrow> pyerror + json" where
  "dict_get (JObj kvs) key dflt = Inr (case map_of kvs key of Some v \<Rightarrow> v | None \<Rightarrow> dflt)"
| "dict_get JNull key dflt = Inl AttributeError"
| "dict_get (JBool b) key dflt = Inl AttributeError"
| "dict_get (JNum r) key dflt = Inl AttributeError"
| "dict_get (JStr s) key dflt = Inl AttributeError"
| "dict_get (JArr xs) key dflt = Inl AttributeError"

text \<open>\<^verbatim>\<open>if isinstance(x, list): x = x[0]\<close>.\<close>

fun first_if_list :: "json \<Rightarrow> pyerror + json" where
  "first_if_list (JArr []) = Inl IndexError"
| "first_if_list (JArr (x # xs)) = Inr x"
| "first_if_list JNull = Inr JNull"
| "first_if_list (JBool b) = Inr (JBool b)"
| "first_if_list (JNum r) = Inr (JNum r)"
| "first_if_list (JStr s) = Inr (JStr s)"
| "first_if_list (JObj kvs) = Inr (JObj kvs)"

text \<open>\<^verbatim>\<open>str(x)\<close>: a string is itself.\<close>

fun py_str :: "lib \<Rightarrow> json \<Rightarrow> pystr" where
  "py_str L (JStr s) = s"
| "py_str L JNull = str_of L JNull"
| "py_str L (JBool b) = str_of L (JBool b)"
| "py_str L (JNum r) = str_of L (JNum r)"
| "py_str L (JArr xs) = str_of L (JArr xs)"
| "py_str L (JObj kvs) = str_of L (JObj kvs)"

subsection \<open>\<^verbatim>\<open>_try_json_ld\<close>\<close>

record candidate =
  cand_name :: "pystr option"
  cand_price :: rat
  cand_currency :: json
  url_match :: bool

text \<open>
  What \<^verbatim>\<open>scrape_product\<close> returns: the dict with the keys name, price and currency. The
  name is \<open>None\<close> when the value under the key is \<^verbatim>\<open>None\<close>.
\<close>

record product =
  name :: "pystr option"
  price :: rat
  currency :: json

text \<open>\<^verbatim>\<open>urlparse(s).path.rstrip("/") if s.startswith("http") else s.rstrip("/")\<close>.\<close>

fun ld_path_of :: "lib \<Rightarrow> json \<Rightarrow> pyerror + pystr" where
  "ld_path_of L (JStr s) =
     (if prefix (ascii ''http'') s
      then on_ok (urlparse L s) (\<lambda>u. Inr (rstrip_char 47 (path u)))
      else Inr (rstrip_char 47 s))"
| "ld_path_of L JNull = Inl AttributeError"
| "ld_path_of L (JBool b) = Inl AttributeError"
| "ld_path_of L (JNum r) = Inl AttributeError"
| "ld_path_of L (JArr xs) = Inl AttributeError"
| "ld_path_of L (JObj kvs) = Inl AttributeError"

text \<open>
  \<^verbatim>\<open>data = json.loads(script.string or "")\<close>, and its first item when it is a list.
\<close>

definition ld_data :: "lib \<Rightarrow> dom \<Rightarrow> pyerror + json" where
  "ld_data L script =
     on_ok (json_loads L (case dom_string script of Some s \<Rightarrow> s | None \<Rightarrow> [])) first_if_list"

text \<open>
  \<^verbatim>\<open>ld_url_raw = data.get("url") or data.get("@id") or ""\<close> and the path taken from it.
\<close>

definition ld_declared_path :: "lib \<Rightarrow> json \<Rightarrow> pyerror + pystr" where
  "ld_declared_path L data =
     on_ok (dict_get data (ascii ''url'') JNull) (\<lambda>u1.
     on_ok (if truthy u1 then Inr u1 else dict_get data (ascii ''@id'') JNull) (\<lambda>u2.
     ld_path_of L (py_or u2 (JStr []))))"

text \<open>
  The body of the \<^verbatim>\<open>try\<close> for one script: an exception (\<open>Inl\<close>), a \<^verbatim>\<open>continue\<close>
  (\<open>Inr None\<close>) or the candidate to append.
\<close>

definition ld_entry :: "lib \<Rightarrow> pystr \<Rightarrow> dom \<Rightarrow> pyerror + candidate option" where
  "ld_entry L page_path script =
     on_ok (ld_data L script) (\<lambda>data.
     on_ok (dict_get data (ascii ''@type'') JNull) (\<lambda>tp.
     if tp \<noteq> JStr (ascii ''Product'') then Inr None else
     on_ok (dict_get data (ascii ''offers'') (JObj [])) (\<lambda>offers0.
     on_ok (first_if_list offers0) (\<lambda>offers.
     on_ok (dict_get offers (ascii ''price'') JNull) (\<lambda>offer_price.
     on_ok (if truthy offer_price then Inr offer_price
            else dict_get data (ascii ''price'') JNull) (\<lambda>price_raw.
     on_ok (dict_get data (ascii ''name'') JNull) (\<lambda>nm.
     on_ok (dict_get offers (ascii ''priceCurrency'') (JStr (ascii ''USD''))) (\<lambda>cur.
     if price_raw = JNull then Inr None else
     case py_float (remove_char 44 (py_str L price_raw)) of
       Inl e \<Rightarrow> Inr None
     | Inr p \<Rightarrow>
     on_ok (ld_declared_path L data) (\<lambda>ld_path.
     Inr (Some \<lparr>cand_name = (if truthy nm then Some (strip (py_str L nm)) else None),
                cand_price = p,
                cand_currency = cur,
                url_match = (page_path \<noteq> [] \<and> ld_path \<noteq> [] \<and> page_path = ld_path)\<rparr>
     ))))))))))"

text \<open>The loop over the scripts: \<^verbatim>\<open>except Exception: pass\<close> goes on with the next script.\<close>

fun ld_loop :: "lib \<Rightarrow> pystr \<Rightarrow> element list \<Rightarrow> candidate list \<Rightarrow> candidate list" where
  "ld_loop L page_path [] candidates = candidates"
| "ld_loop L page_path (script # rest) candidates =
     (case ld_entry L page_path (snd script) of
        Inl e \<Rightarrow> ld_loop L page_path rest candidates
      | Inr None \<Rightarrow> ld_loop L page_path rest candidates
      | Inr (Some c) \<Rightarrow> ld_loop L page_path rest (candidates @ [c]))"

definition ld_scripts :: "soup \<Rightarrow> element list" where
  "ld_scripts soup = find_all_with soup ''script'' ''type'' (ascii ''application/ld+json'')"

definition choose_candidate :: "candidate list \<Rightarrow> candidate option" where
  "choose_candidate candidates =
     (case candidates of
        [] \<Rightarrow> None
      | first # _ \<Rightarrow>
          (case filter url_match candidates of
             [] \<Rightarrow> Some first
           | m # _ \<Rightarrow> Some m))"

text \<open>\<^verbatim>\<open>urlparse(page_url).path.rstrip("/") if page_url else ""\<close>.\<close>

definition page_path_of :: "lib \<Rightarrow> pystr \<Rightarrow> pyerror + pystr" where
  "page_path_of L page_url =
     (if page_url \<noteq> [] then on_ok (urlparse L page_url) (\<lambda>u. Inr (rstrip_char 47 (path u)))
      else Inr [])"

definition as_product :: "candidate \<Rightarrow> product" where
  "as_product chosen =
     \<lparr>name = cand_name chosen, price = cand_price chosen, currency = cand_currency chosen\<rparr>"

definition try_json_ld :: "lib \<Rightarrow> soup \<Rightarrow> pystr \<Rightarrow> pyerror + product option" where
  "try_json_ld L soup page_url =
     on_ok (page_path_of L page_url) (\<lambda>page_path.
     case choose_candidate (ld_loop L page_path (ld_scripts soup) []) of
       None \<Rightarrow> Inr None
     | Some chosen \<Rightarrow> Inr (Some (as_product chosen)))"

subsection \<open>\<^verbatim>\<open>_extract_title\<close>\<close>

definition title_entry :: "lib \<Rightarrow> dom \<Rightarrow> pyerror + pystr option" where
  "title_entry L script =
     on_ok (ld_data L script) (\<lambda>data.
     on_ok (dict_get data (ascii ''@type'') JNull) (\<lambda>tp.
     if tp \<noteq> JStr (ascii ''Product'') then Inr None else
     on_ok (dict_get data (ascii ''name'') JNull) (\<lambda>nm.
     if truthy nm then Inr (Some (strip (py_str L nm))) else Inr None)))"

fun title_loop :: "lib \<Rightarrow> element list \<Rightarrow> pystr option" where
  "title_loop L [] = None"
| "title_loop L (script # rest) =
     (case title_entry L (snd script) of
        Inr (Some t) \<Rightarrow> Some t
      | Inr None \<Rightarrow> title_loop L rest
      | Inl e \<Rightarrow> title_loop L rest)"

definition og_title :: "soup \<Rightarrow> element option" where
  "og_title soup =
     (case soup_find_with soup ''meta'' ''property'' (ascii ''og:title'') of
        Some el \<Rightarrow> Some el
      | None \<Rightarrow> soup_find_with soup ''meta'' ''name'' (ascii ''og:title''))"

definition page_title :: "soup \<Rightarrow> pystr" where
  "page_title soup =
     (case soup_find soup ''title'' of
        Some t \<Rightarrow> get_text [] (snd t)
      | None \<Rightarrow> ascii ''Unknown Product'')"

definition extract_title :: "lib \<Rightarrow> soup \<Rightarrow> pystr" where
  "extract_title L soup =
     (case title_loop L (ld_scripts soup) of
        Some t \<Rightarrow> t
      | None \<Rightarrow>
          (case soup_find soup ''h1'' of
             Some h1 \<Rightarrow> get_text [] (snd h1)
           | None \<Rightarrow>
               (case og_title soup of
                  None \<Rightarrow> page_title soup
                | Some og \<Rightarrow>
                    (case attr_get (snd og) ''content'' of
                       None \<Rightarrow> page_title soup
                     | Some c \<Rightarrow> if c = [] then page_title soup else strip c))))"

subsection \<open>\<^verbatim>\<open>_fetch_html\<close> and \<^verbatim>\<open>scrape_product\<close>\<close>

definition fetch_html :: "lib \<Rightarrow> pystr \<Rightarrow> bool \<Rightarrow> pystr option" where
  "fetch_html L url render =
     (let scraper_key = scraper_api_key L;
          direct = (case requests_get L url 15 of Inr text \<Rightarrow> Some text | Inl e \<Rightarrow> None)
      in if render \<and> scraper_key \<noteq> []
         then (case requests_get L
                      (ascii ''https://api.scraperapi.com/?api_key='' @ scraper_key @
                       ascii ''&url='' @ quote_plus L url @ ascii ''&render=true'') 60 of
                 Inr text \<Rightarrow> Some text
               | Inl e \<Rightarrow> direct)
         else direct)"

text \<open>
  \<^verbatim>\<open>_find_anchor_element(soup, product_name) if product_name else soup.find("h1")\<close>.
\<close>

definition resolve_anchor :: "lib \<Rightarrow> soup \<Rightarrow> pystr \<Rightarrow> element option" where
  "resolve_anchor L soup product_name =
     (if product_name \<noteq> [] then find_anchor_element L soup product_name
      else soup_find soup ''h1'')"

text \<open>
  The result of a positional strategy with \<^verbatim>\<open>result["name"] = _extract_title(soup)\<close>.
\<close>

definition named :: "lib \<Rightarrow> soup \<Rightarrow> price_hit \<Rightarrow> product" where
  "named L soup hit =
     \<lparr>name = Some (extract_title L soup), price = hit_price hit,
      currency = JStr (hit_currency hit)\<rparr>"

text \<open>
  \<^verbatim>\<open>urlparse(url)\<close> stands outside every \<^verbatim>\<open>try\<close>. The dict that \<^verbatim>\<open>_try_json_ld\<close> returns
  always has the key name, so \<^verbatim>\<open>result.setdefault("name", ...)\<close> leaves it as it is.
\<close>

definition scrape_product :: "lib \<Rightarrow> pystr \<Rightarrow> bool \<Rightarrow> pystr \<Rightarrow> pyerror + product option" where
  "scrape_product L url render product_name =
     on_ok (urlparse L url) (\<lambda>parsed.
     if (scheme parsed \<noteq> ascii ''http'' \<and> scheme parsed \<noteq> ascii ''https'') \<or> netloc parsed = []
     then Inr None
     else case fetch_html L url render of
       None \<Rightarrow> Inr None
     | Some html \<Rightarrow>
         if html = [] then Inr None
         else let soup = parse_html L html;
                  anchor = resolve_anchor L soup product_name
         in on_ok (try_json_ld L soup url) (\<lambda>ld.
            case ld of
              Some result \<Rightarrow> Inr (Some result)
            | None \<Rightarrow>
                (case try_selectors L soup anchor of
                   Some hit \<Rightarrow> Inr (Some (named L soup hit))
                 | None \<Rightarrow>
                     (case try_proximity_sweep soup anchor of
                        Some hit \<Rightarrow> Inr (Some (named L soup hit))
                      | None \<Rightarrow> Inr None))))"

subsection \<open>The candidates of the two positional strategies\<close>

text \<open>
  The words of the specification, to state what the loops compute. The matches of the
  selector pool are every element that every selector yields, in the order of the pool,
  each with what is to be read of it.
\<close>

definition selector_matches :: "lib \<Rightarrow> soup \<Rightarrow> (string \<times> element) list" where
  "selector_matches L soup =
     concat (map (\<lambda>(selector, attr_type). map (\<lambda>el. (attr_type, el)) (select L soup selector))
                 PRICE_SELECTORS)"

text \<open>A match survives when its text parses to a positive price.\<close>

definition selector_cand :: "string \<times> element \<Rightarrow> price_hit option" where
  "selector_cand m =
     (case extract_price_from_text (selector_raw (fst m) (snd m)) of
        None \<Rightarrow> None
      | Some p \<Rightarrow>
          if 0 < p
          then Some \<lparr>hit_price = p,
                     hit_currency = detect_currency (selector_raw (fst m) (snd m))\<rparr>
          else None)"

text \<open>
  The sweep considers an element with a visible tag, no element children and a text of
  1 to 30 characters; a considered element survives when its price is above 0 and below
  1,000,000.
\<close>

definition sweep_considered :: "element \<Rightarrow> bool" where
  "sweep_considered el \<longleftrightarrow>
     name_of (snd el) \<notin> set SKIP \<and> \<not> has_child_tags (snd el) \<and>
     get_text [32] (snd el) \<noteq> [] \<and> length (get_text [32] (snd el)) \<le> 30"

definition sweep_cand :: "element \<Rightarrow> price_hit option" where
  "sweep_cand el =
     (if sweep_considered el
      then (case extract_price_from_text (get_text [32] (snd el)) of
              None \<Rightarrow> None
            | Some p \<Rightarrow>
                if 0 < p \<and> p < 1000000
                then Some \<lparr>hit_price = p,
                           hit_currency = detect_currency (get_text [32] (snd el))\<rparr>
                else None)
      else None)"

text \<open>The update that both loops make for a surviving candidate.\<close>

definition closest_step :: "('a \<Rightarrow> price_hit option) \<Rightarrow> ('a \<Rightarrow> nat) \<Rightarrow> best \<Rightarrow> 'a \<Rightarrow> best" where
  "closest_step cand dist_of st x =
     (case cand x of
        None \<Rightarrow> st
      | Some h \<Rightarrow>
          if dist_of x < best_dist st
          then \<lparr>best_dist = dist_of x, best_price = Some (hit_price h),
                best_currency = hit_currency h\<rparr>
          else st)"


subsection \<open>Pages and a library for the examples\<close>

definition ascii_lower :: "pystr \<Rightarrow> pystr" where
  "ascii_lower s = map (\<lambda>c. if 65 \<le> c \<and> c \<le> 90 then c + 32 else c) s"

text \<open>\<^verbatim>\<open>s.partition(sep)\<close> when \<open>sep\<close> occurs in \<open>s\<close>.\<close>

fun split_at :: "pystr \<Rightarrow> pystr \<Rightarrow> (pystr \<times> pystr) option" where
  "split_at sep [] = (if sep = [] then Some ([], []) else None)"
| "split_at sep (c # cs) =
     (if prefix sep (c # cs) then Some ([], drop (length sep) (c # cs))
      else map_option (\<lambda>(a, b). (c # a, b)) (split_at sep cs))"

text \<open>
  \<^verbatim>\<open>urlparse\<close> on the URLs of the examples, which have no query, fragment or parameters:
  the scheme before \<^verbatim>\<open>://\<close>, the netloc up to the next slash, the path from that slash
  on; \<^verbatim>\<open>ValueError\<close> ("Invalid IPv6 URL") when only one of the two brackets stands in
  the netloc.
\<close>

definition simple_urlparse :: "pystr \<Rightarrow> pyerror + url" where
  "simple_urlparse s =
     (case split_at (ascii ''://'') s of
        None \<Rightarrow> Inr \<lparr>scheme = [], netloc = [], path = s\<rparr>
      | Some (sch, rest) \<Rightarrow>
          (let nl = takeWhile (\<lambda>c. c \<noteq> 47) rest in
           if (91 \<in> set nl) \<noteq> (93 \<in> set nl) then Inl ValueError
           else Inr \<lparr>scheme = sch, netloc = nl, path = dropWhile (\<lambda>c. c \<noteq> 47) rest\<rparr>))"

text \<open>
  The library of the examples: every fetch succeeds and parses to the given page,
  \<^verbatim>\<open>json.loads\<close> knows the given texts and raises on every other, \<^verbatim>\<open>select\<close> yields the
  given matches of each selector. The examples hold no JSON value but strings and dicts,
  so \<^verbatim>\<open>str()\<close> of another value is never asked for.
\<close>

definition example_lib :: "soup \<Rightarrow> (pystr \<times> json) list \<Rightarrow> (string \<times> element list) list \<Rightarrow> lib" where
  "example_lib page blocks matches =
     \<lparr>select = (\<lambda>soup selector. case map_of matches selector of Some els \<Rightarrow> els | None \<Rightarrow> []),
      lower = ascii_lower,
      json_loads = (\<lambda>s. case map_of blocks s of Some v \<Rightarrow> Inr v | None \<Rightarrow> Inl ValueError),
      str_of = (\<lambda>v. []),
      urlparse = simple_urlparse,
      quote_plus = (\<lambda>s. s),
      scraper_api_key = [],
      requests_get = (\<lambda>u t. Inr (ascii ''<html>'')),
      parse_html = (\<lambda>html. page)\<rparr>"

definition h1_widget :: dom where
  "h1_widget = Tag ''h1'' [] [Text (ascii ''Widget'')]"

definition price_span :: dom where
  "price_span = Tag ''span'' [(''class'', ascii ''price'')] [Text (ascii ''$5.00'')]"

definition other_span :: dom where
  "other_span = Tag ''span'' [(''class'', ascii ''price'')] [Text (ascii ''$7.00'')]"

text \<open>A page with a heading and a price, and a page with two prices and no heading.\<close>

definition page_h1 :: soup where
  "page_h1 = BeautifulSoup [Tag ''div'' [] [h1_widget, price_span]]"

definition page_no_h1 :: soup where
  "page_no_h1 =
     BeautifulSoup
       [Tag ''div'' [] [Tag ''p'' [] [Text (ascii ''Widget'')], price_span, other_span]]"




text \<open>The libraries of the examples on these pages: \<^verbatim>\<open>.price\<close> selects the price element.\<close>

definition lib_h1 :: lib where
  "lib_h1 = example_lib page_h1 [] [(''.price'', [([0, 1], price_span)])]"

definition lib_no_h1 :: lib where
  "lib_no_h1 =
     example_lib page_no_h1 [] [(''.price'', [([0, 1], price_span), ([0, 2], other_span)])]"



text \<open>Pages with structured data. A script holds its text as one string.\<close>

definition ld_script :: "pystr \<Rightarrow> dom" where
  "ld_script s = Tag ''script'' [(''type'', ascii ''application/ld+json'')] [Hidden s]"

definition product_json :: "pystr option \<Rightarrow> pystr \<Rightarrow> pystr option \<Rightarrow> json" where
  "product_json nm pr u =
     JObj ([(ascii ''@type'', JStr (ascii ''Product''))] @
           (case nm of Some n \<Rightarrow> [(ascii ''name'', JStr n)] | None \<Rightarrow> []) @
           [(ascii ''offers'', JObj [(ascii ''price'', JStr pr)])] @
           (case u of Some v \<Rightarrow> [(ascii ''url'', JStr v)] | None \<Rightarrow> []))"







text \<open>
  A product with the price \<^verbatim>\<open>-1.00\<close>, and a product without a name on a page with a
  heading.
\<close>

definition page_negative :: soup where
  "page_negative = BeautifulSoup [Tag ''head'' [] [ld_script (ascii ''N'')]]"

definition lib_negative :: lib where
  "lib_negative =
     example_lib page_negative
       [(ascii ''N'', product_json (Some (ascii ''Widget'')) (ascii ''-1.00'') None)] []"

definition page_unnamed :: soup where
  "page_unnamed =
     BeautifulSoup [Tag ''head'' [] [ld_script (ascii ''U'')], Tag ''body'' [] [h1_widget]]"

definition lib_unnamed :: lib where
  "lib_unnamed =
     example_lib page_unnamed [(ascii ''U'', product_json None (ascii ''19.99'') None)] []"

section \<open>Properties\<close>

subsection \<open>The price-text parser\<close>

lemma price_dollar: "extract_price_from_text (ascii ''$1,234.56'') = Some (123456 / 100)"
  by code_simp

lemma currency_dollar: "detect_currency (ascii ''$1,234.56'') = ascii ''USD''"
  by code_simp

lemma price_pound: "extract_price_from_text (POUND # ascii ''999.99'') = Some (99999 / 100)"
  by code_simp

lemma currency_pound: "detect_currency (POUND # ascii ''999.99'') = ascii ''GBP''"
  by code_simp

lemma price_euro: "extract_price_from_text (EURO # ascii ''1.234,56'') = Some (123456 / 100000)"
  by code_simp

lemma currency_euro: "detect_currency (EURO # ascii ''1.234,56'') = ascii ''EUR''"
  by code_simp

text \<open>
  C2 (a defect of the code). The parser maps \<^verbatim>\<open>$1,234.56\<close> to 1234.56 with currency USD
  and the pound text \<^verbatim>\<open>999.99\<close> to 999.99 with currency GBP, as the claim says. On the
  euro text \<^verbatim>\<open>1.234,56\<close> the source removes every comma before it counts the dots, so
  one dot is left, the European branch is not taken and the result is 1.23456 with
  currency EUR, not 1234.56 as the claim and the comment of the source say.
\<close>

theorem C2_price_text_examples:
  "extract_price_from_text (ascii ''$1,234.56'') = Some (123456 / 100) \<and>
   detect_currency (ascii ''$1,234.56'') = ascii ''USD'' \<and>
   extract_price_from_text (POUND # ascii ''999.99'') = Some (99999 / 100) \<and>
   detect_currency (POUND # ascii ''999.99'') = ascii ''GBP'' \<and>
   extract_price_from_text (EURO # ascii ''1.234,56'') = Some (123456 / 100000) \<and>
   detect_currency (EURO # ascii ''1.234,56'') = ascii ''EUR''"
  using price_dollar currency_dollar price_pound currency_pound price_euro currency_euro
  by (intro conjI)

subsection \<open>The distance between two nodes\<close>

lemma ancestors_loop_eq:
  "ancestors_loop (Some a) d m =
     (\<lambda>n. if prefix n a then Some (d + (length a - length n)) else m n)"
proof (induction a arbitrary: d m rule: rev_induct)
  case Nil
  show ?case by (auto simp: parent_def)
next
  case (snoc i p)
  have "ancestors_loop (Some (p @ [i])) d m =
        ancestors_loop (Some p) (d + 1) (m(p @ [i] \<mapsto> d))"
    by (simp add: parent_def)
  also have "\<dots> = (\<lambda>n. if prefix n p then Some (d + 1 + (length p - length n))
                         else (m(p @ [i] \<mapsto> d)) n)"
    by (rule snoc.IH)
  also have "\<dots> = (\<lambda>n. if prefix n (p @ [i]) then Some (d + (length (p @ [i]) - length n))
                         else m n)"
  proof (rule ext)
    fix n
    show "(if prefix n p then Some (d + 1 + (length p - length n)) else (m(p @ [i] \<mapsto> d)) n) =
          (if prefix n (p @ [i]) then Some (d + (length (p @ [i]) - length n)) else m n)"
    proof (cases "prefix n p")
      case True
      then have "length n \<le> length p" by (rule prefix_length_le)
      with True show ?thesis by (simp add: Suc_diff_le)
    next
      case False
      then show ?thesis by auto
    qed
  qed
  finally show ?case .
qed

lemma lcp_snoc:
  assumes "\<not> prefix (y @ [i]) x"
  shows "longest_common_prefix x (y @ [i]) = longest_common_prefix x y"
proof -
  let ?L = "longest_common_prefix x (y @ [i])"
  have 1: "prefix ?L x" by (rule longest_common_prefix_prefix1)
  have "prefix ?L (y @ [i])" by (rule longest_common_prefix_prefix2)
  with 1 assms have "prefix ?L y" by auto
  with 1 have a: "prefix ?L (longest_common_prefix x y)"
    by (rule longest_common_prefix_max_prefix)
  have "prefix (longest_common_prefix x y) y" by (rule longest_common_prefix_prefix2)
  then have "prefix (longest_common_prefix x y) (y @ [i])" by simp
  with longest_common_prefix_prefix1 have "prefix (longest_common_prefix x y) ?L"
    by (rule longest_common_prefix_max_prefix)
  with a show ?thesis by (rule prefix_order.antisym)
qed

lemma lcp_commute: "longest_common_prefix x y = longest_common_prefix y x"
  by (induction x y rule: longest_common_prefix.induct) (auto elim: longest_common_prefix.elims)

lemma walk_up_eq:
  "walk_up (ancestors_loop (Some a) 0 Map.empty) (Some b) k =
     k + (length a - length (longest_common_prefix a b))
       + (length b - length (longest_common_prefix a b))"
proof (induction b arbitrary: k rule: rev_induct)
  case Nil
  show ?case by (simp add: ancestors_loop_eq del: ancestors_loop.simps)
next
  case (snoc i p)
  show ?case
  proof (cases "prefix (p @ [i]) a")
    case True
    have "prefix (p @ [i]) (longest_common_prefix a (p @ [i]))"
      using True by (intro longest_common_prefix_max_prefix) auto
    moreover have "prefix (longest_common_prefix a (p @ [i])) (p @ [i])"
      by (rule longest_common_prefix_prefix2)
    ultimately have "longest_common_prefix a (p @ [i]) = p @ [i]"
      by (intro prefix_order.antisym)
    with True show ?thesis by (simp add: ancestors_loop_eq del: ancestors_loop.simps)
  next
    case False
    have "length (longest_common_prefix a p) \<le> length p"
      by (intro prefix_length_le longest_common_prefix_prefix2)
    with False snoc.IH [of "k + 1"] show ?thesis
      by (simp add: ancestors_loop_eq parent_def lcp_snoc Suc_diff_le del: ancestors_loop.simps)
  qed
qed

lemma dom_distance_eq:
  "dom_distance a b =
     (length a - length (longest_common_prefix a b))
       + (length b - length (longest_common_prefix a b))"
  by (simp add: dom_distance_def walk_up_eq del: ancestors_loop.simps walk_up.simps)

text \<open>
  C8. For every pair of nodes of one document tree the distance is symmetric:
  \<open>distance(A, B) = distance(B, A)\<close>.
\<close>

theorem C8_dom_distance_symmetric: "dom_distance a b = dom_distance b a"
  by (simp add: dom_distance_eq lcp_commute [of a b])

subsection \<open>The loops that keep the closest candidate\<close>

lemma selectors_step_closest:
  "selectors_step anchor attr st el =
     closest_step selector_cand (\<lambda>m. dist_to anchor (snd m)) st (attr, el)"
  by (simp add: selectors_step_def closest_step_def selector_cand_def Let_def not_less
           split: option.splits)

lemma sweep_step_closest:
  "sweep_step anchor st el = closest_step sweep_cand (dist_to anchor) st el"
  by (simp add: sweep_step_def closest_step_def sweep_cand_def sweep_considered_def Let_def
           not_less not_le split: option.splits)

lemma foldl_nested:
  "foldl (\<lambda>st (s, a). foldl (f a) st (g s)) st ps =
     foldl (\<lambda>st m. f (fst m) st (snd m)) st
       (concat (map (\<lambda>(s, a). map (\<lambda>el. (a, el)) (g s)) ps))"
proof (induction ps arbitrary: st)
  case Nil
  show ?case by simp
next
  case (Cons p ps)
  obtain s a where p: "p = (s, a)" by (cases p)
  have "foldl (f a) st (g s) =
        foldl (\<lambda>st m. f (fst m) st (snd m)) st (map (\<lambda>el. (a, el)) (g s))"
    by (induction "g s" arbitrary: st rule: rev_induct) (simp_all add: foldl_map)
  with Cons.IH show ?case by (simp add: p)
qed

lemma try_selectors_closest:
  "try_selectors L soup anchor0 =
     best_result (foldl (closest_step selector_cand
                           (\<lambda>m. dist_to (anchor_or_h1 soup anchor0) (snd m)))
                        best_init (selector_matches L soup))"
  by (simp add: try_selectors_def Let_def foldl_nested selector_matches_def
                selectors_step_closest)

lemma try_proximity_sweep_closest:
  "try_proximity_sweep soup anchor0 =
     best_result (foldl (closest_step sweep_cand (dist_to (anchor_or_h1 soup anchor0)))
                        best_init (find_all soup))"
proof -
  have "sweep_step a = closest_step sweep_cand (dist_to a)" for a
    by (intro ext) (rule sweep_step_closest)
  then show ?thesis by (simp add: try_proximity_sweep_def Let_def)
qed

lemma closest_foldl_le:
  "best_dist (foldl (closest_step c d) st xs) \<le> best_dist st"
proof (induction xs arbitrary: st)
  case Nil
  show ?case by simp
next
  case (Cons x xs)
  have "best_dist (closest_step c d st x) \<le> best_dist st"
    by (simp add: closest_step_def split: option.splits)
  with Cons.IH [of "closest_step c d st x"] show ?case by simp
qed

lemma closest_foldl_lower:
  "x \<in> set xs \<Longrightarrow> c x \<noteq> None \<Longrightarrow> best_dist (foldl (closest_step c d) st xs) \<le> d x"
proof (induction xs arbitrary: st)
  case Nil
  then show ?case by simp
next
  case (Cons y ys)
  show ?case
  proof (cases "x = y")
    case True
    have "best_dist (closest_step c d st y) \<le> d y"
      using Cons.prems(2) True by (auto simp: closest_step_def split: option.splits)
    with closest_foldl_le [of c d "closest_step c d st y" ys] True show ?thesis by simp
  next
    case False
    with Cons.prems have "x \<in> set ys" by simp
    from Cons.IH [OF this Cons.prems(2)] show ?thesis by simp
  qed
qed

lemma closest_foldl_cases:
  "foldl (closest_step c d) st xs = st \<or>
   (\<exists>x\<in>set xs. \<exists>h. c x = Some h \<and> d x < best_dist st \<and>
      foldl (closest_step c d) st xs =
        \<lparr>best_dist = d x, best_price = Some (hit_price h), best_currency = hit_currency h\<rparr>)"
proof (induction xs arbitrary: st)
  case Nil
  show ?case by simp
next
  case (Cons y ys)
  let ?st = "closest_step c d st y"
  consider (same) "?st = st"
    | (new) h where "c y = Some h" "d y < best_dist st"
        "?st = \<lparr>best_dist = d y, best_price = Some (hit_price h), best_currency = hit_currency h\<rparr>"
    by (cases "c y"; cases "d y < best_dist st") (auto simp: closest_step_def)
  then show ?case
  proof cases
    case same
    with Cons.IH [of st] show ?thesis by auto
  next
    case new
    from Cons.IH [of ?st] show ?thesis
    proof
      assume "foldl (closest_step c d) ?st ys = ?st"
      with new show ?thesis by auto
    next
      assume "\<exists>x\<in>set ys. \<exists>h. c x = Some h \<and> d x < best_dist ?st \<and>
        foldl (closest_step c d) ?st ys =
          \<lparr>best_dist = d x, best_price = Some (hit_price h), best_currency = hit_currency h\<rparr>"
      then obtain x h' where x: "x \<in> set ys" "c x = Some h'" "d x < best_dist ?st"
        "foldl (closest_step c d) ?st ys =
          \<lparr>best_dist = d x, best_price = Some (hit_price h'), best_currency = hit_currency h'\<rparr>"
        by blast
      from x(3) new have "d x < best_dist st" by simp
      with x show ?thesis by auto
    qed
  qed
qed


lemma closest_some:
  assumes "best_result (foldl (closest_step c d) best_init xs) = Some h"
  shows "\<exists>x\<in>set xs. c x = Some h \<and> d x \<le> 10000 \<and> (\<forall>y\<in>set xs. c y \<noteq> None \<longrightarrow> d x \<le> d y)"
proof -
  let ?r = "foldl (closest_step c d) best_init xs"
  from assms have "?r \<noteq> best_init" by (auto simp: best_result_def best_init_def)
  with closest_foldl_cases [of c d best_init xs]
  obtain x h' where x: "x \<in> set xs" "c x = Some h'" "d x < best_dist best_init"
    "?r = \<lparr>best_dist = d x, best_price = Some (hit_price h'), best_currency = hit_currency h'\<rparr>"
    by blast
  from x(4) assms have "h' = h" by (cases h'; cases h) (simp add: best_result_def)
  moreover from x(3) have "d x \<le> 10000" by (simp add: best_init_def)
  moreover have "\<forall>y\<in>set xs. c y \<noteq> None \<longrightarrow> d x \<le> d y"
    using closest_foldl_lower [of _ xs c d best_init] x(4) by fastforce
  ultimately show ?thesis using x(1,2) by blast
qed




subsection \<open>The pages of the examples\<close>











subsection \<open>The anchor\<close>

lemma find_anchor_blank:
  "strip (lower L hint) = [] \<Longrightarrow> find_anchor_element L soup hint = soup_find soup ''h1''"
  by (simp add: find_anchor_element_def)

text \<open>
  C3, as amended. When the hint is empty (or blank once lowercased and stripped), the
  anchor locator returns the first \<^verbatim>\<open>h1\<close> element of the document in document order,
  and so does the anchor that \<^verbatim>\<open>scrape_product\<close> resolves for an empty hint; when the
  document has no \<^verbatim>\<open>h1\<close> element the anchor is absent (\<open>None\<close>), not the root.
\<close>

theorem C3_empty_hint_anchor:
  "strip (lower L hint) = [] \<Longrightarrow>
     find_anchor_element L soup hint =
       List.find (\<lambda>el. name_of (snd el) = ''h1'') (find_all soup) \<and>
     resolve_anchor L soup [] =
       List.find (\<lambda>el. name_of (snd el) = ''h1'') (find_all soup) \<and>
     ((\<forall>el\<in>set (find_all soup). name_of (snd el) \<noteq> ''h1'') \<longrightarrow>
        find_anchor_element L soup hint = None \<and> resolve_anchor L soup [] = None)"
  by (auto simp: find_anchor_blank resolve_anchor_def soup_find_def find_None_iff)

lemma strip_lower_empty: "strip (lower lib_h1 []) = []"
  by code_simp

lemma first_h1_page_h1:
  "List.find (\<lambda>el. name_of (snd el) = ''h1'') (find_all page_h1) = Some ([0, 0], h1_widget)"
  by code_simp

text \<open>On the page with a heading, the empty hint resolves to the heading.\<close>

theorem C3_witness:
  "strip (lower lib_h1 []) = [] \<and>
   find_anchor_element lib_h1 page_h1 [] = Some ([0, 0], h1_widget) \<and>
   resolve_anchor lib_h1 page_h1 [] = Some ([0, 0], h1_widget)"
  using C3_empty_hint_anchor [OF strip_lower_empty, of page_h1] strip_lower_empty first_h1_page_h1
  by simp

lemma no_h1_page_no_h1: "soup_find page_no_h1 ''h1'' = None"
  by code_simp

lemma anchor_page_no_h1: "find_anchor_element lib_no_h1 page_no_h1 [] = None"
  by code_simp

lemma resolve_page_no_h1: "resolve_anchor lib_no_h1 page_no_h1 [] = None"
  by code_simp

text \<open>
  C3 as stated fails: on a page without \<^verbatim>\<open>h1\<close> the anchor of the empty hint is \<open>None\<close>,
  where the claim says the root of the tree.
\<close>

theorem C3_counterexample:
  "soup_find page_no_h1 ''h1'' = None \<and>
   find_anchor_element lib_no_h1 page_no_h1 [] = None \<and>
   resolve_anchor lib_no_h1 page_no_h1 [] = None"
  using no_h1_page_no_h1 anchor_page_no_h1 resolve_page_no_h1 by (intro conjI)

subsection \<open>The selector strategy\<close>






subsection \<open>The proximity sweep\<close>






text \<open>Both positional strategies return positive prices only.\<close>

lemma try_selectors_positive: "try_selectors L soup anchor0 = Some h \<Longrightarrow> 0 < hit_price h"
proof -
  assume "try_selectors L soup anchor0 = Some h"
  then obtain m where "selector_cand m = Some h"
    unfolding try_selectors_closest by (blast dest: closest_some)
  then show ?thesis by (auto simp: selector_cand_def split: option.splits if_splits)
qed

lemma try_proximity_sweep_positive:
  "try_proximity_sweep soup anchor0 = Some h \<Longrightarrow> 0 < hit_price h \<and> hit_price h < 1000000"
proof -
  assume "try_proximity_sweep soup anchor0 = Some h"
  then obtain el where "sweep_cand el = Some h"
    unfolding try_proximity_sweep_closest by (blast dest: closest_some)
  then show ?thesis by (auto simp: sweep_cand_def split: option.splits if_splits)
qed

subsection \<open>No heading and no hint\<close>





subsection \<open>The structured-data strategy\<close>

















subsection \<open>The orchestrator\<close>

lemma try_json_ld_returns:
  "urlparse L url = Inr parsed \<Longrightarrow> \<exists>r. try_json_ld L soup url = Inr r"
  by (simp add: try_json_ld_def page_path_of_def on_ok_def split: option.splits)

lemma scrape_product_raises_iff:
  "scrape_product L url render product_name = Inl e \<longleftrightarrow> urlparse L url = Inl e"
proof (cases "urlparse L url")
  case (Inl e')
  then show ?thesis by (simp add: scrape_product_def on_ok_def)
next
  case (Inr parsed)
  from try_json_ld_returns [OF Inr]
  have "\<exists>r. try_json_ld L soup url = Inr r" for soup by blast
  then have "\<And>soup. try_json_ld L soup url \<noteq> Inl e" by (metis sum.distinct(1))
  with Inr show ?thesis
    by (auto simp: scrape_product_def on_ok_def Let_def split: option.splits sum.splits)
qed

text \<open>
  C1 (a defect of the code). The structured-data strategy has no test on the sign of
  the price: a page whose product declares the price \<^verbatim>\<open>-1.00\<close> makes \<^verbatim>\<open>scrape_product\<close>
  return the price -1, where the claim says that every returned price is positive. The
  two positional strategies do reject a price that is not positive.
\<close>

theorem C1_negative_price_returned:
  "scrape_product lib_negative (ascii ''https://x/widget'') False [] =
     Inr (Some \<lparr>name = Some (ascii ''Widget''), price = - 1, currency = JStr (ascii ''USD'')\<rparr>)"
  by code_simp

lemma scrape_unnamed:
  "scrape_product lib_unnamed (ascii ''https://x/widget'') False [] =
     Inr (Some \<lparr>name = None, price = 1999 / 100, currency = JStr (ascii ''USD'')\<rparr>)"
  by code_simp

lemma title_unnamed: "extract_title lib_unnamed page_unnamed = ascii ''Widget''"
  by code_simp

text \<open>
  C4 (a defect of the code). The dict of the structured-data strategy always has the
  key name, so \<^verbatim>\<open>setdefault\<close> never fills it: for a product without a name the result
  carries the name \<^verbatim>\<open>None\<close>, although the title extractor finds the heading of the page.
\<close>

theorem C4_missing_name_not_filled:
  "scrape_product lib_unnamed (ascii ''https://x/widget'') False [] =
     Inr (Some \<lparr>name = None, price = 1999 / 100, currency = JStr (ascii ''USD'')\<rparr>) \<and>
   extract_title lib_unnamed page_unnamed = ascii ''Widget''"
  using scrape_unnamed title_unnamed by (intro conjI)

text \<open>
  C9 (a defect of the code). \<^verbatim>\<open>urlparse(url)\<close> is the first statement of
  \<^verbatim>\<open>scrape_product\<close> and stands in no \<^verbatim>\<open>try\<close>: on the URL \<^verbatim>\<open>http://[\<close> it raises
  \<^verbatim>\<open>ValueError\<close>, which leaves \<^verbatim>\<open>scrape_product\<close>. By \<open>scrape_product_raises_iff\<close>
  this is the only exception of the model that escapes.
\<close>

theorem C9_urlparse_error_escapes:
  "scrape_product lib_h1 (ascii ''http://['') False [] = Inl ValueError"
  by code_simp

end
